theory Spec2Isabelle
  imports Main "HOL-Library.AList"
begin

section \<open>Values, strings and errors\<close>

text \<open>
  The program is JavaScript. The values that flow through the caches and the clients are
  parsed JSON bodies and the objects the clients build from them. Objects are association
  lists (property order is kept, an existing property is overwritten in place and a new one
  is appended, as \<open>AList.update\<close> does). Numbers are modelled by integers plus \<open>NaN\<close>: the
  functions below only copy a number, test it for zero or print it.

  Strings are \<open>char list\<close>. The Cyrillic message literals of the source are written here in
  Latin transliteration, letter by letter, so that the substring tests of the source keep
  their meaning.
\<close>

datatype jsval =
    JUndefined
  | JNull
  | JBool bool
  | JNum int
  | JNaN
  | JStr string
  | JArr "jsval list"
  | JObj "(string \<times> jsval) list"


definition digit :: "nat \<Rightarrow> char" where
  "digit d = ''0123456789ABCDEF'' ! d"

function show_nat :: "nat \<Rightarrow> string" where
  "show_nat n = (if n < 10 then [digit n] else show_nat (n div 10) @ [digit (n mod 10)])"
  by pat_completeness auto
termination
  by (relation "measure id") auto

declare show_nat.simps [simp del]

text \<open>The own enumerable properties that an object spread \<open>{...v}\<close> copies.\<close>

fun spread :: "jsval \<Rightarrow> (string \<times> jsval) list" where
  "spread (JObj fs) = fs"
| "spread (JArr xs) = zip (map show_nat [0 ..< length xs]) xs"
| "spread (JStr s) = zip (map show_nat [0 ..< length s]) (map (\<lambda>c. JStr [c]) s)"
| "spread v = []"

text \<open>
  \<open>NetworkError\<close> and \<open>BusinessError\<close> are the two classes of the source; \<open>null\<close> in their
  \<open>code\<close> and \<open>statusCode\<close> fields is \<open>None\<close>. \<open>PlatformError name message\<close> stands for
  every exception that the platform raises (a \<open>TypeError\<close> of \<open>fetch\<close>, the \<open>AbortError\<close>
  of an aborted request, the \<open>SyntaxError\<close> of \<open>response.json()\<close>): such an object has
  none of the flags \<open>isNetworkError\<close>, \<open>isBusinessError\<close> and no \<open>statusCode\<close>.
\<close>

datatype js_error =
    NetworkError string "nat option"
  | BusinessError string "string option" "nat option"
  | PlatformError string string

fun errName :: "js_error \<Rightarrow> string" where
  "errName (NetworkError m sc) = ''NetworkError''"
| "errName (BusinessError m c sc) = ''BusinessError''"
| "errName (PlatformError n m) = n"

fun errMessage :: "js_error \<Rightarrow> string" where
  "errMessage (NetworkError m sc) = m"
| "errMessage (BusinessError m c sc) = m"
| "errMessage (PlatformError n m) = m"

fun isNetworkError :: "js_error \<Rightarrow> bool" where
  "isNetworkError (NetworkError m sc) = True"
| "isNetworkError e = False"

fun isBusinessError :: "js_error \<Rightarrow> bool" where
  "isBusinessError (BusinessError m c sc) = True"
| "isBusinessError e = False"

fun errCode :: "js_error \<Rightarrow> string option" where
  "errCode (BusinessError m c sc) = c"
| "errCode e = None"

fun errStatusCode :: "js_error \<Rightarrow> nat option" where
  "errStatusCode (NetworkError m sc) = sc"
| "errStatusCode (BusinessError m c sc) = sc"
| "errStatusCode (PlatformError n m) = None"

section \<open>CacheWithTTL\<close>

text \<open>
  The store is a JavaScript \<open>Map\<close> from keys to \<open>{value, expiresAt}\<close>. Times are
  milliseconds as \<open>Date.now()\<close> returns them; every method that reads the clock takes the
  current time as its first argument. The methods mutate the cache; the model returns the
  new cache.
\<close>

record ttl_entry =
  valueOf :: jsval
  expiresAt :: nat

record CacheWithTTL =
  cache :: "(string \<times> ttl_entry) list"
  ttlMs :: nat

definition newCacheWithTTL :: "nat \<Rightarrow> CacheWithTTL" where
  "newCacheWithTTL ttl = \<lparr>cache = [], ttlMs = ttl\<rparr>"

definition ttl_set :: "nat \<Rightarrow> string \<Rightarrow> jsval \<Rightarrow> CacheWithTTL \<Rightarrow> CacheWithTTL" where
  "ttl_set dateNow key v c =
     (let expires = dateNow + ttlMs c
      in c\<lparr>cache := AList.update key \<lparr>valueOf = v, expiresAt = expires\<rparr> (cache c)\<rparr>)"

definition ttl_get :: "nat \<Rightarrow> string \<Rightarrow> CacheWithTTL \<Rightarrow> jsval \<times> CacheWithTTL" where
  "ttl_get dateNow key c =
     (case map_of (cache c) key of
        None \<Rightarrow> (JNull, c)
      | Some cached \<Rightarrow>
          if dateNow > expiresAt cached
          then (JNull, c\<lparr>cache := AList.delete key (cache c)\<rparr>)
          else (valueOf cached, c))"

definition ttl_has :: "nat \<Rightarrow> string \<Rightarrow> CacheWithTTL \<Rightarrow> bool \<times> CacheWithTTL" where
  "ttl_has dateNow key c = (let (v, c') = ttl_get dateNow key c in (v \<noteq> JNull, c'))"

definition ttl_clear :: "CacheWithTTL \<Rightarrow> CacheWithTTL" where
  "ttl_clear c = c\<lparr>cache := []\<rparr>"

text \<open>
  \<open>getCacheInfo\<close> returns \<open>null\<close> (\<open>None\<close>) for a key with no entry and an object
  otherwise; it does not change the cache. \<open>Math.ceil(remainingMs / 1000)\<close> on a
  non-negative integer is \<open>(remainingMs + 999) div 1000\<close>.
\<close>

record cache_info =
  isExpired :: bool
  remainingMs :: nat
  remainingSec :: nat

definition ttl_getCacheInfo :: "nat \<Rightarrow> string \<Rightarrow> CacheWithTTL \<Rightarrow> cache_info option" where
  "ttl_getCacheInfo dateNow key c =
     (case map_of (cache c) key of
        None \<Rightarrow> None
      | Some cached \<Rightarrow>
          (let expired = (dateNow > expiresAt cached);
               remaining = (if expired then 0 else expiresAt cached - dateNow)
           in Some \<lparr>isExpired = expired, remainingMs = remaining,
                     remainingSec = (remaining + 999) div 1000\<rparr>))"

section \<open>ETagCache\<close>

text \<open>
  A \<open>Map\<close> from the request URL to \<open>{etag, data, timestamp}\<close>. \<open>getETag\<close> returns the
  validator or \<open>null\<close> (\<open>None\<close>), \<open>getData\<close> the payload or \<open>null\<close>.
\<close>

record etag_entry =
  etag :: string
  edata :: jsval
  timestamp :: nat

type_synonym ETagCache = "(string \<times> etag_entry) list"

definition etag_set :: "nat \<Rightarrow> string \<Rightarrow> string \<Rightarrow> jsval \<Rightarrow> ETagCache \<Rightarrow> ETagCache" where
  "etag_set dateNow u e d ec = AList.update u \<lparr>etag = e, edata = d, timestamp = dateNow\<rparr> ec"

definition etag_getETag :: "string \<Rightarrow> ETagCache \<Rightarrow> string option" where
  "etag_getETag u ec = (case map_of ec u of None \<Rightarrow> None | Some cached \<Rightarrow> Some (etag cached))"

definition etag_getData :: "string \<Rightarrow> ETagCache \<Rightarrow> jsval" where
  "etag_getData u ec = (case map_of ec u of None \<Rightarrow> JNull | Some cached \<Rightarrow> edata cached)"

definition etag_has :: "string \<Rightarrow> ETagCache \<Rightarrow> bool" where
  "etag_has u ec = (map_of ec u \<noteq> None)"

definition etag_clear :: "ETagCache \<Rightarrow> ETagCache" where
  "etag_clear ec = []"

section \<open>String functions of the platform\<close>

fun startsWith :: "string \<Rightarrow> string \<Rightarrow> bool" where
  "startsWith s [] = True"
| "startsWith [] (p # ps) = False"
| "startsWith (c # cs) (p # ps) = (c = p \<and> startsWith cs ps)"

fun str_includes :: "string \<Rightarrow> string \<Rightarrow> bool" where
  "str_includes [] sub = (sub = [])"
| "str_includes (c # cs) sub = (startsWith (c # cs) sub \<or> str_includes cs sub)"

text \<open>
  Lower-casing of the ASCII letters \<open>A\<close> to \<open>Z\<close>, every other character kept. This is how
  a \<open>Headers\<close> object normalises a header name. It is also what
  \<open>String.prototype.toLowerCase\<close> does on a string of ASCII characters; on other strings
  that method lower-cases every cased letter and is not this function, so the weather
  client below takes the method as a parameter.
\<close>

definition asciiLowerChar :: "char \<Rightarrow> char" where
  "asciiLowerChar c =
     (case map_of (zip ''ABCDEFGHIJKLMNOPQRSTUVWXYZ'' ''abcdefghijklmnopqrstuvwxyz'') c of
        None \<Rightarrow> c
      | Some l \<Rightarrow> l)"

definition asciiLowerCase :: "string \<Rightarrow> string" where
  "asciiLowerCase s = map asciiLowerChar s"




text \<open>
  \<open>parseInt\<close> with no radix argument: leading white space, a sign, an optional \<open>0x\<close>
  prefix, then the longest run of digits; \<open>NaN\<close> when there is no digit.
\<close>

definition isSpace :: "char \<Rightarrow> bool" where
  "isSpace c = ((of_char c :: nat) \<in> {9, 10, 11, 12, 13, 32})"

definition digitVal :: "nat \<Rightarrow> char \<Rightarrow> nat option" where
  "digitVal radix c =
     (let n = (of_char c :: nat);
          v = (if 48 \<le> n \<and> n \<le> 57 then Some (n - 48)
               else if 97 \<le> n \<and> n \<le> 122 then Some (n - 87)
               else if 65 \<le> n \<and> n \<le> 90 then Some (n - 55)
               else None)
      in case v of None \<Rightarrow> None | Some d \<Rightarrow> if d < radix then Some d else None)"

fun parseDigits :: "nat \<Rightarrow> string \<Rightarrow> nat option \<Rightarrow> nat option" where
  "parseDigits radix [] acc = acc"
| "parseDigits radix (c # cs) acc =
     (case digitVal radix c of
        None \<Rightarrow> acc
      | Some d \<Rightarrow> parseDigits radix cs (Some (radix * (case acc of None \<Rightarrow> 0 | Some a \<Rightarrow> a) + d)))"

definition parseInt :: "string \<Rightarrow> jsval" where
  "parseInt s =
     (let s1 = dropWhile isSpace s;
          neg = startsWith s1 ''-'';
          s2 = (if startsWith s1 ''-'' \<or> startsWith s1 ''+'' then drop 1 s1 else s1);
          hex = (startsWith s2 ''0x'' \<or> startsWith s2 ''0X'');
          radix = (if hex then 16 else 10);
          s3 = (if hex then drop 2 s2 else s2)
      in case parseDigits radix s3 None of
           None \<Rightarrow> JNaN
         | Some n \<Rightarrow> JNum (if neg then - int n else int n))"

section \<open>The platform: clock, network, timers, cancellation\<close>

text \<open>
  \<open>fetchWithRetry\<close> is asynchronous code over the platform's \<open>fetch\<close>, \<open>setTimeout\<close>
  and \<open>AbortSignal\<close>. The model passes a \<open>world\<close> along: the clock, the calls of
  \<open>fetch\<close> made so far and the delays slept so far. The network is a parameter: for the
  \<open>i\<close>-th call of the run (counted from 0) and its request it tells how the request
  settles, and after how many milliseconds, when the caller does not cancel it: with a
  response, or with a platform exception, which is the \<open>AbortError\<close> of the attempt's own
  timer when the request outlives \<open>timeoutMs\<close>. The body of a response is what
  \<open>response.json()\<close> gives: the parsed value, or the name and message of the exception it
  rejects with.

  The caller's cancellation token is given by the time at which it is triggered, if ever:
  its \<open>aborted\<close> flag is set from that time on. \<open>None\<close> is the default \<open>signal = null\<close>.
  The source hands \<open>fetch\<close> the token combined with the timer's signal, and \<open>fetch\<close>
  honours it: when the token is triggered before the request has settled (or was triggered
  before the call), \<open>fetch\<close> rejects with an \<open>AbortError\<close> at that moment, whatever the
  network would have answered.
\<close>

type_synonym header_list = "(string \<times> string) list"

record response =
  respStatus :: nat
  respStatusText :: string
  respHeaders :: header_list
  respBody :: "(string \<times> string) + jsval"

datatype fetch_outcome = Resolved response | Rejected string string

record request =
  reqUrl :: string
  reqHeaders :: header_list
  reqTimeoutMs :: nat

type_synonym network = "nat \<Rightarrow> request \<Rightarrow> fetch_outcome \<times> nat"

datatype abort_signal = NotTriggered | TriggeredAt nat

record world =
  now :: nat
  calls :: "request list"
  sleeps :: "nat list"

text \<open>\<open>signal?.aborted\<close>, read at time \<open>t\<close>.\<close>

definition aborted :: "abort_signal option \<Rightarrow> nat \<Rightarrow> bool" where
  "aborted signal t =
     (case signal of
        None \<Rightarrow> False
      | Some NotTriggered \<Rightarrow> False
      | Some (TriggeredAt ta) \<Rightarrow> ta \<le> t)"

text \<open>
  The moment at which a call of \<open>fetch\<close> started at \<open>t0\<close> is aborted by the token: the
  trigger time, or \<open>t0\<close> for a token triggered before.
\<close>

definition abortMoment :: "abort_signal option \<Rightarrow> nat \<Rightarrow> nat" where
  "abortMoment signal t0 =
     (case signal of
        None \<Rightarrow> t0
      | Some NotTriggered \<Rightarrow> t0
      | Some (TriggeredAt ta) \<Rightarrow> max t0 ta)"

definition fetch ::
  "network \<Rightarrow> request \<Rightarrow> abort_signal option \<Rightarrow> world \<Rightarrow> fetch_outcome \<times> world" where
  "fetch net req signal w =
     (let (out, elapsed) = net (length (calls w)) req;
          settled = now w + elapsed
      in if aborted signal settled
         then (Rejected ''AbortError'' ''The operation was aborted'',
               w\<lparr>now := abortMoment signal (now w), calls := calls w @ [req]\<rparr>)
         else (out, w\<lparr>now := settled, calls := calls w @ [req]\<rparr>))"

definition sleep :: "nat \<Rightarrow> world \<Rightarrow> world" where
  "sleep ms w = w\<lparr>now := now w + ms, sleeps := sleeps w @ [ms]\<rparr>"

definition ok :: "response \<Rightarrow> bool" where
  "ok r = (200 \<le> respStatus r \<and> respStatus r \<le> 299)"

text \<open>
  A \<open>Headers\<close> object looks names up without regard to case: the list holds each name in
  lower case with its value.
\<close>

definition headers_get :: "header_list \<Rightarrow> string \<Rightarrow> string option" where
  "headers_get hs name = map_of hs (asciiLowerCase name)"

section \<open>fetchWithRetry\<close>

definition msg_cancelled :: string where
  "msg_cancelled = ''Zapros byl otmenen''"

record fetched =
  data :: jsval
  headers :: header_list
  status :: nat

text \<open>The error thrown for a response whose \<open>ok\<close> flag is false.\<close>

definition classify :: "response \<Rightarrow> js_error" where
  "classify r =
     (if respStatus r \<ge> 500 then
        NetworkError (''Oshibka servera '' @ show_nat (respStatus r) @ '': '' @ respStatusText r)
          (Some (respStatus r))
      else if respStatus r = 404 then
        BusinessError ''Resurs ne najden (404)'' (Some ''NOT_FOUND'') None
      else if respStatus r = 401 \<or> respStatus r = 403 then
        BusinessError (''Oshibka avtorizacii ('' @ show_nat (respStatus r) @ '')'')
          (Some ''AUTH_ERROR'') None
      else if respStatus r = 429 then
        BusinessError ''Prevyshen limit zaprosov (429)'' (Some ''RATE_LIMIT'')
          (Some (respStatus r))
      else
        NetworkError (''HTTP '' @ show_nat (respStatus r) @ '': '' @ respStatusText r)
          (Some (respStatus r)))"

text \<open>
  The \<open>try\<close> block of one attempt, after \<open>fetch\<close> has settled: what it returns (\<open>Inr\<close>) or
  the exception that reaches the \<open>catch\<close> clause (\<open>Inl\<close>).
\<close>

definition tryBlock :: "fetch_outcome \<Rightarrow> js_error + fetched" where
  "tryBlock out =
     (case out of
        Rejected n m \<Rightarrow> Inl (PlatformError n m)
      | Resolved r \<Rightarrow>
          if \<not> ok r then Inl (classify r)
          else (case respBody r of
                  Inl (n, m) \<Rightarrow> Inl (PlatformError n m)
                | Inr d \<Rightarrow> Inr \<lparr>data = d, headers = respHeaders r, status = respStatus r\<rparr>))"

text \<open>
  The code after the loop. \<open>lastError\<close> is \<open>None\<close> while the variable is still undefined;
  reading a property of it then raises a \<open>TypeError\<close> of the engine.
\<close>

definition afterLoop :: "int \<Rightarrow> js_error option \<Rightarrow> js_error" where
  "afterLoop retries lastError =
     (case lastError of
        None \<Rightarrow> PlatformError ''TypeError'' ''Cannot read properties of undefined''
      | Some e \<Rightarrow>
          if isNetworkError e \<or> isBusinessError e then e
          else NetworkError (''Ne udalos vypolnit zapros posle '' @ show_nat (nat (retries + 1))
                  @ '' popytok: '' @ errMessage e) None)"

text \<open>
  The \<open>while (attempt <= retries)\<close> loop with its state \<open>attempt\<close>, \<open>lastError\<close>.
\<close>

function fetchLoop ::
  "network \<Rightarrow> string \<Rightarrow> int \<Rightarrow> nat \<Rightarrow> nat \<Rightarrow> abort_signal option \<Rightarrow> header_list
     \<Rightarrow> nat \<Rightarrow> js_error option \<Rightarrow> world \<Rightarrow> (js_error + fetched) \<times> world" where
  "fetchLoop net u retries backoffMs timeoutMs signal hdrs attempt lastError w =
     (if int attempt \<le> retries then
        (let ow = fetch net \<lparr>reqUrl = u, reqHeaders = hdrs, reqTimeoutMs = timeoutMs\<rparr>
                    signal w;
             w1 = snd ow
         in case tryBlock (fst ow) of
              Inr res \<Rightarrow> (Inr res, w1)
            | Inl error \<Rightarrow>
                if aborted signal (now w1) \<or> errName error = ''AbortError'' then
                  (Inl (NetworkError msg_cancelled None), w1)
                else if isBusinessError error then
                  (Inl error, w1)
                else if int attempt < retries \<and> isNetworkError error then
                  fetchLoop net u retries backoffMs timeoutMs signal hdrs (attempt + 1)
                    (Some error) (sleep (backoffMs * 2 ^ attempt) w1)
                else
                  (Inl (afterLoop retries (Some error)), w1))
      else (Inl (afterLoop retries lastError), w))"
  by pat_completeness auto
termination
  by (relation "measure (\<lambda>(net, u, retries, backoffMs, timeoutMs, signal, hdrs, attempt,
        lastError, w). nat (retries + 1 - int attempt))") auto

declare fetchLoop.simps [simp del]

definition fetchWithRetry ::
  "network \<Rightarrow> string \<Rightarrow> int \<Rightarrow> nat \<Rightarrow> nat \<Rightarrow> abort_signal option \<Rightarrow> header_list
     \<Rightarrow> world \<Rightarrow> (js_error + fetched) \<times> world" where
  "fetchWithRetry net u retries backoffMs timeoutMs signal hdrs w =
     fetchLoop net u retries backoffMs timeoutMs signal hdrs 0 None w"


section \<open>The weather client\<close>




text \<open>
  The cache key \<open>`weather_${cityName.toLowerCase()}`\<close>. \<open>toLowerCase\<close> is the method
  of the platform's strings; it is a parameter of the key and of the functions that build it.
\<close>

definition weatherCacheKey :: "(string \<Rightarrow> string) \<Rightarrow> string \<Rightarrow> string" where
  "weatherCacheKey toLowerCase cityName = ''weather_'' @ toLowerCase cityName"




text \<open>The module's \<open>getCacheInfo(cityName)\<close>.\<close>

definition getCacheInfo ::
  "(string \<Rightarrow> string) \<Rightarrow> nat \<Rightarrow> string \<Rightarrow> CacheWithTTL \<Rightarrow> cache_info option" where
  "getCacheInfo toLowerCase dateNow cityName weatherCache =
     ttl_getCacheInfo dateNow (weatherCacheKey toLowerCase cityName) weatherCache"

section \<open>The paginated city client\<close>

definition MOCK_API_URL :: string where
  "MOCK_API_URL = ''http://localhost:3001''"

definition citiesUrl :: "nat \<Rightarrow> nat \<Rightarrow> string" where
  "citiesUrl page limit =
     MOCK_API_URL @ ''/cities?_page='' @ show_nat page @ ''&_limit='' @ show_nat limit"

text \<open>The \<open>catch\<close> clause of \<open>getCitiesPaginated\<close>.\<close>

definition citiesCatch :: "js_error \<Rightarrow> js_error" where
  "citiesCatch error =
     (if isNetworkError error then error
      else if isBusinessError error then error
      else NetworkError (''Oshibka pri zagruzke gorodov: '' @ errMessage error) None)"

text \<open>
  \<open>response.data.length\<close>: the length of an array or string, the property of that name of
  an object, \<open>undefined\<close> on a number or boolean, and a \<open>TypeError\<close> on \<open>null\<close>.
\<close>

fun lengthOf :: "jsval \<Rightarrow> js_error + jsval" where
  "lengthOf (JArr xs) = Inr (JNum (int (length xs)))"
| "lengthOf (JStr s) = Inr (JNum (int (length s)))"
| "lengthOf (JObj fs) = Inr (case map_of fs ''length'' of None \<Rightarrow> JUndefined | Some v \<Rightarrow> v)"
| "lengthOf JNull = Inl (PlatformError ''TypeError'' ''Cannot read properties of null'')"
| "lengthOf JUndefined = Inl (PlatformError ''TypeError'' ''Cannot read properties of undefined'')"
| "lengthOf v = Inr JUndefined"

definition truthyStr :: "string option \<Rightarrow> bool" where
  "truthyStr s = (case s of None \<Rightarrow> False | Some t \<Rightarrow> t \<noteq> [])"

definition getCitiesPaginated ::
  "network \<Rightarrow> nat \<Rightarrow> nat \<Rightarrow> abort_signal option \<Rightarrow> bool \<Rightarrow> ETagCache \<times> world
     \<Rightarrow> (js_error + jsval) \<times> ETagCache \<times> world" where
  "getCitiesPaginated net page limit signal useETag st =
     (let etagCache = fst st;
          w = snd st;
          u = citiesUrl page limit;
          hdrs = (if useETag \<and> etag_has u etagCache
                  then (case etag_getETag u etagCache of
                          None \<Rightarrow> []
                        | Some e \<Rightarrow> if e \<noteq> [] then [(''If-None-Match'', e)] else [])
                  else []);
          fw = fetchWithRetry net u 2 500 5000 signal hdrs w;
          w1 = snd fw
      in case fst fw of
           Inl error \<Rightarrow> (Inl (citiesCatch error), etagCache, w1)
         | Inr response \<Rightarrow>
             if status response = 304 then
               (Inr (JObj (AList.update ''cacheHit'' (JBool True)
                       (AList.update ''fromCache'' (JBool True)
                          (spread (etag_getData u etagCache))))),
                etagCache, w1)
             else
               (let etagHeader = headers_get (headers response) ''ETag'';
                    linkHeader = headers_get (headers response) ''Link'';
                    totalCount = headers_get (headers response) ''X-Total-Count''
                in case (if truthyStr totalCount
                         then Inr (parseInt (case totalCount of None \<Rightarrow> [] | Some t \<Rightarrow> t))
                         else lengthOf (data response)) of
                     Inl error \<Rightarrow> (Inl (citiesCatch error), etagCache, w1)
                   | Inr totalValue \<Rightarrow>
                       (let result = JObj
                              [(''data'', data response),
                               (''page'', JNum (int page)),
                               (''limit'', JNum (int limit)),
                               (''total'', totalValue),
                               (''hasMore'', JBool
                                  (case linkHeader of
                                     None \<Rightarrow> False
                                   | Some l \<Rightarrow> l \<noteq> []
                                       \<and> str_includes l (''rel='' @ [CHR 0x22] @ ''next'' @ [CHR 0x22]))),
                               (''fromCache'', JBool False),
                               (''cacheHit'', JBool False)]
                        in case etagHeader of
                             None \<Rightarrow> (Inr result, etagCache, w1)
                           | Some e \<Rightarrow>
                               if useETag \<and> e \<noteq> []
                               then (Inr result, etag_set (now w1) u e result etagCache, w1)
                               else (Inr result, etagCache, w1))))"

section \<open>Concrete runs\<close>

text \<open>Networks, tokens and a starting world for the concrete runs evaluated below.\<close>

definition world0 :: world where
  "world0 = \<lparr>now = 0, calls = [], sleeps = []\<rparr>"

definition cityPage :: jsval where
  "cityPage = JArr [JObj [(''id'', JNum 1), (''name'', JStr ''Minsk'')]]"

text \<open>
  A city server: it sends the page with the validator \<open>v1\<close>, and answers 304 with an empty
  body to a request that carries \<open>If-None-Match: v1\<close>.
\<close>

definition etagServer :: network where
  "etagServer i req =
     (if map_of (reqHeaders req) ''If-None-Match'' = Some ''v1''
      then (Resolved \<lparr>respStatus = 304, respStatusText = ''Not Modified'',
                      respHeaders = [(''etag'', ''v1'')],
                      respBody = Inl (''SyntaxError'', ''Unexpected end of JSON input'')\<rparr>, 10)
      else (Resolved \<lparr>respStatus = 200, respStatusText = ''OK'',
                      respHeaders = [(''etag'', ''v1''), (''x-total-count'', ''25'')],
                      respBody = Inr cityPage\<rparr>, 10))"

text \<open>A network with no connectivity, and one that never answers before the timer fires.\<close>

definition netFailedToFetch :: network where
  "netFailedToFetch i req = (Rejected ''TypeError'' ''Failed to fetch'', 3)"

definition netTimedOut :: network where
  "netTimedOut i req = (Rejected ''AbortError'' ''The operation was aborted'', reqTimeoutMs req)"

text \<open>A server that fails with 500 on the first two calls, and then answers.\<close>

definition flakyServer :: network where
  "flakyServer i req =
     (if i < 2
      then (Resolved \<lparr>respStatus = 500, respStatusText = ''Internal Server Error'',
                      respHeaders = [], respBody = Inr (JObj [])\<rparr>, 20)
      else (Resolved \<lparr>respStatus = 200, respStatusText = ''OK'',
                      respHeaders = [(''content-type'', ''application/json'')],
                      respBody = Inr (JObj [(''name'', JStr ''Moscow'')])\<rparr>, 20))"

definition notFoundResponse :: response where
  "notFoundResponse = \<lparr>respStatus = 404, respStatusText = ''Not Found'', respHeaders = [],
                        respBody = Inr (JObj [])\<rparr>"

definition always404 :: network where
  "always404 i req = (Resolved notFoundResponse, 15)"


text \<open>What the first request of page 1 to \<open>etagServer\<close> returns and leaves behind.\<close>

definition firstPageResult :: jsval where
  "firstPageResult = JObj
     [(''data'', cityPage), (''page'', JNum 1), (''limit'', JNum 10), (''total'', JNum 25),
      (''hasMore'', JBool False), (''fromCache'', JBool False), (''cacheHit'', JBool False)]"

definition cacheAfterFirstPage :: ETagCache where
  "cacheAfterFirstPage =
     [(''http://localhost:3001/cities?_page=1&_limit=10'',
       \<lparr>etag = ''v1'', edata = firstPageResult, timestamp = 10\<rparr>)]"

definition unconditionalRequest :: request where
  "unconditionalRequest =
     \<lparr>reqUrl = ''http://localhost:3001/cities?_page=1&_limit=10'', reqHeaders = [],
      reqTimeoutMs = 5000\<rparr>"

definition conditionalRequest :: request where
  "conditionalRequest =
     \<lparr>reqUrl = ''http://localhost:3001/cities?_page=1&_limit=10'',
      reqHeaders = [(''If-None-Match'', ''v1'')], reqTimeoutMs = 5000\<rparr>"

definition worldAfterFirstPage :: world where
  "worldAfterFirstPage = \<lparr>now = 10, calls = [unconditionalRequest], sleeps = []\<rparr>"









section \<open>Properties of CacheWithTTL\<close>

lemma map_of_ttl_set:
  "map_of (cache (ttl_set t k v c)) =
     (map_of (cache c))(k \<mapsto> \<lparr>valueOf = v, expiresAt = t + ttlMs c\<rparr>)"
  by (simp add: ttl_set_def update_conv')

text \<open>
  C7. After \<open>set(k, v)\<close> at time \<open>t\<close>, a \<open>get(k)\<close> at a time \<open>t'\<close> not later than the expiry
  \<open>t + ttlMs\<close> (in particular at once, \<open>t' = t\<close>) returns \<open>v\<close> and leaves the cache as it is.
  At a time past the expiry, \<open>get(k)\<close> returns \<open>null\<close> and the cache it leaves has no entry
  for \<open>k\<close> (the other keys are kept). \<open>has(k)\<close> is "\<open>get(k)\<close> is not \<open>null\<close>" with the
  same effect on the cache, so on an expired entry it is false and evicts the entry.
\<close>

theorem C7_ttl_set_get_expiry:
  "ttl_get t k (ttl_set t k v c) = (v, ttl_set t k v c)
   \<and> (t' \<le> t + ttlMs c \<longrightarrow>
      ttl_get t' k (ttl_set t k v c) = (v, ttl_set t k v c))
   \<and> (t + ttlMs c < t' \<longrightarrow>
      fst (ttl_get t' k (ttl_set t k v c)) = JNull
      \<and> map_of (cache (snd (ttl_get t' k (ttl_set t k v c)))) = (map_of (cache c))(k := None)
      \<and> fst (ttl_has t' k (ttl_set t k v c)) = False
      \<and> map_of (cache (snd (ttl_has t' k (ttl_set t k v c)))) k = None)
   \<and> ttl_has t' k d = (fst (ttl_get t' k d) \<noteq> JNull, snd (ttl_get t' k d))"
  by (simp add: ttl_get_def ttl_has_def map_of_ttl_set delete_conv' ttl_set_def update_conv'
      split: prod.splits)

theorem C7_witness:
  "ttl_get 1000 ''k'' (ttl_set 1000 ''k'' (JNum 7) (newCacheWithTTL 60000))
     = (JNum 7, ttl_set 1000 ''k'' (JNum 7) (newCacheWithTTL 60000))
   \<and> fst (ttl_get 61001 ''k'' (ttl_set 1000 ''k'' (JNum 7) (newCacheWithTTL 60000))) = JNull
   \<and> cache (snd (ttl_get 61001 ''k'' (ttl_set 1000 ''k'' (JNum 7) (newCacheWithTTL 60000)))) = []
   \<and> ttl_has 61001 ''k'' (ttl_set 1000 ''k'' (JNum 7) (newCacheWithTTL 60000))
       = (False, newCacheWithTTL 60000)"
  using C7_ttl_set_get_expiry [of 1000 "''k''" "JNum 7" "newCacheWithTTL 60000" 1000
      "newCacheWithTTL 60000"]
    C7_ttl_set_get_expiry [of 1000 "''k''" "JNum 7" "newCacheWithTTL 60000" 61001
      "ttl_set 1000 ''k'' (JNum 7) (newCacheWithTTL 60000)"]
  by (simp add: newCacheWithTTL_def ttl_set_def ttl_get_def ttl_has_def)

text \<open>
  C9, as the code has it. After \<open>set(k, null)\<close>, at any time up to the expiry, \<open>get(k)\<close>
  returns \<open>null\<close> and \<open>has(k)\<close> is false, although the store still holds the entry:
  \<open>get\<close> and \<open>has\<close> give the same answers as on a cache that has no entry for \<open>k\<close>.
  The rest of the interface does tell the two apart: \<open>getCacheInfo(k)\<close> returns an info
  object for the stored \<open>null\<close> and \<open>null\<close> for a key with no entry.
\<close>

theorem C9_stored_null_looks_absent:
  "(t' \<le> t + ttlMs c \<longrightarrow>
      fst (ttl_get t' k (ttl_set t k JNull c)) = JNull
      \<and> fst (ttl_has t' k (ttl_set t k JNull c)) = False
      \<and> map_of (cache (snd (ttl_has t' k (ttl_set t k JNull c)))) k
          = Some \<lparr>valueOf = JNull, expiresAt = t + ttlMs c\<rparr>)
   \<and> (map_of (cache d) k = None \<longrightarrow>
      fst (ttl_get t' k d) = JNull \<and> fst (ttl_has t' k d) = False
      \<and> ttl_getCacheInfo t' k d = None)
   \<and> ttl_getCacheInfo t' k (ttl_set t k JNull c)
       = Some \<lparr>isExpired = (t + ttlMs c < t'), remainingMs = t + ttlMs c - t',
               remainingSec = (t + ttlMs c - t' + 999) div 1000\<rparr>"
  by (auto simp: ttl_get_def ttl_has_def ttl_getCacheInfo_def map_of_ttl_set Let_def)

theorem C9_witness:
  "fst (ttl_get 5 ''k'' (ttl_set 5 ''k'' JNull (newCacheWithTTL 60000))) = JNull
   \<and> fst (ttl_has 5 ''k'' (ttl_set 5 ''k'' JNull (newCacheWithTTL 60000))) = False
   \<and> cache (snd (ttl_has 5 ''k'' (ttl_set 5 ''k'' JNull (newCacheWithTTL 60000))))
       = [(''k'', \<lparr>valueOf = JNull, expiresAt = 60005\<rparr>)]
   \<and> fst (ttl_get 5 ''k'' (newCacheWithTTL 60000)) = JNull
   \<and> fst (ttl_has 5 ''k'' (newCacheWithTTL 60000)) = False"
  using C9_stored_null_looks_absent [of 5 5 "newCacheWithTTL 60000" "''k''"
      "newCacheWithTTL 60000"]
  by (simp add: newCacheWithTTL_def ttl_set_def ttl_get_def ttl_has_def)

text \<open>
  The claim as it is written, that the two are indistinguishable at the public interface,
  fails on \<open>getCacheInfo\<close>: on the cache that stores \<open>null\<close> under \<open>k\<close> it returns an info
  object, on the empty cache it returns \<open>null\<close>.
\<close>

theorem C9_counterexample:
  "ttl_getCacheInfo 5 ''k'' (ttl_set 5 ''k'' JNull (newCacheWithTTL 60000))
     = Some \<lparr>isExpired = False, remainingMs = 60000, remainingSec = 60\<rparr>
   \<and> ttl_getCacheInfo 5 ''k'' (newCacheWithTTL 60000) = None"
  by (simp add: ttl_getCacheInfo_def ttl_set_def newCacheWithTTL_def Let_def)

section \<open>Properties of fetchWithRetry\<close>

lemma fetchLoop_step:
  assumes "int attempt \<le> retries"
    and "fetch net \<lparr>reqUrl = u, reqHeaders = hdrs, reqTimeoutMs = timeoutMs\<rparr> signal w = (out, w1)"
  shows "fetchLoop net u retries backoffMs timeoutMs signal hdrs attempt lastError w =
     (case tryBlock out of
        Inr res \<Rightarrow> (Inr res, w1)
      | Inl error \<Rightarrow>
          if aborted signal (now w1) \<or> errName error = ''AbortError'' then
            (Inl (NetworkError msg_cancelled None), w1)
          else if isBusinessError error then (Inl error, w1)
          else if int attempt < retries \<and> isNetworkError error then
            fetchLoop net u retries backoffMs timeoutMs signal hdrs (attempt + 1)
              (Some error) (sleep (backoffMs * 2 ^ attempt) w1)
          else (Inl (afterLoop retries (Some error)), w1))"
  using assms by (subst fetchLoop.simps) (simp add: Let_def split: sum.splits)

lemma fetch_world:
  "fetch net req signal w = (out, w1) \<Longrightarrow>
     calls w1 = calls w @ [req] \<and> sleeps w1 = sleeps w \<and> now w \<le> now w1"
  by (auto simp: fetch_def Let_def abortMoment_def split: prod.splits if_splits option.splits
      abort_signal.splits)

text \<open>
  \<open>fetch\<close> honours the token: when the token is found triggered once \<open>fetch\<close> has
  settled, \<open>fetch\<close> has rejected with an \<open>AbortError\<close>.
\<close>

lemma fetch_aborted:
  "fetch net req signal w = (out, w1) \<Longrightarrow> aborted signal (now w1) \<Longrightarrow>
     out = Rejected ''AbortError'' ''The operation was aborted''"
  by (auto simp: fetch_def Let_def split: prod.splits if_splits)

lemma fetch_not_aborted:
  "net (length (calls w)) req = (out, d) \<Longrightarrow> \<not> aborted signal (now w + d) \<Longrightarrow>
     fetch net req signal w = (out, w\<lparr>now := now w + d, calls := calls w @ [req]\<rparr>)"
  by (simp add: fetch_def)

lemma tryBlock_business:
  "tryBlock out = Inl e \<Longrightarrow> isBusinessError e \<Longrightarrow>
     (errStatusCode e = Some 429 \<and> errCode e = Some ''RATE_LIMIT'')
     \<or> (errStatusCode e = None \<and> (errCode e = Some ''NOT_FOUND'' \<or> errCode e = Some ''AUTH_ERROR''))"
  by (auto simp: tryBlock_def classify_def split: fetch_outcome.splits if_splits sum.splits)

lemma tryBlock_success_ok:
  "tryBlock out = Inr res \<Longrightarrow> 200 \<le> status res \<and> status res \<le> 299"
  by (auto simp: tryBlock_def ok_def split: fetch_outcome.splits if_splits sum.splits)

lemma afterLoop_not_business:
  "\<not> isBusinessError error \<Longrightarrow> \<not> isBusinessError (afterLoop retries (Some error))"
  by (simp add: afterLoop_def)

lemma fetchLoop_business:
  "fst (fetchLoop net u retries backoffMs timeoutMs signal hdrs attempt lastError w) = Inl e \<Longrightarrow>
   isBusinessError e \<Longrightarrow>
   (\<forall>e'. lastError = Some e' \<longrightarrow> \<not> isBusinessError e') \<Longrightarrow>
     (errStatusCode e = Some 429 \<and> errCode e = Some ''RATE_LIMIT'')
     \<or> (errStatusCode e = None \<and> (errCode e = Some ''NOT_FOUND'' \<or> errCode e = Some ''AUTH_ERROR''))"
proof (induction net u retries backoffMs timeoutMs signal hdrs attempt lastError w
    rule: fetchLoop.induct)
  case (1 net u retries backoffMs timeoutMs signal hdrs attempt lastError w)
  show ?case
  proof (cases "int attempt \<le> retries")
    case False
    with "1.prems" show ?thesis
      by (subst (asm) fetchLoop.simps) (auto simp: afterLoop_def split: option.splits if_splits)
  next
    case True
    obtain out w1 where f: "fetch net \<lparr>reqUrl = u, reqHeaders = hdrs, reqTimeoutMs = timeoutMs\<rparr> signal w = (out, w1)"
      by (cases "fetch net \<lparr>reqUrl = u, reqHeaders = hdrs, reqTimeoutMs = timeoutMs\<rparr> signal w")
    show ?thesis
    proof (cases "tryBlock out")
      case (Inr res)
      with "1.prems" True f show ?thesis by (simp add: fetchLoop_step)
    next
      case (Inl error)
      show ?thesis
      proof (cases "aborted signal (now w1) \<or> errName error = ''AbortError''")
        case c: True
        with "1.prems" True f Inl show ?thesis by (auto simp: fetchLoop_step)
      next
        case c: False
        show ?thesis
        proof (cases "isBusinessError error")
          case b: True
          with "1.prems" True f Inl c have "e = error" by (auto simp: fetchLoop_step)
          then show ?thesis using tryBlock_business [OF Inl b] by simp
        next
          case b: False
          show ?thesis
          proof (cases "int attempt < retries \<and> isNetworkError error")
            case r: True
            have "fst (fetchLoop net u retries backoffMs timeoutMs signal hdrs (attempt + 1)
                    (Some error) (sleep (backoffMs * 2 ^ attempt) w1)) = Inl e"
              using "1.prems"(1) True f Inl c b r by (simp add: fetchLoop_step)
            then show ?thesis
              using "1.IH" [of "(out, w1)" w1 error] True f Inl c b r "1.prems"(2) by simp
          next
            case r: False
            with "1.prems" True f Inl c b show ?thesis
              using afterLoop_not_business [OF b] by (auto simp: fetchLoop_step)
          qed
        qed
      qed
    qed
  qed
qed

lemma fetchLoop_success_calls:
  "(\<forall>res. fst (fetchLoop net u retries backoffMs timeoutMs signal hdrs attempt lastError w) = Inr res
       \<longrightarrow> 200 \<le> status res \<and> status res \<le> 299)
   \<and> length (calls w)
       \<le> length (calls (snd (fetchLoop net u retries backoffMs timeoutMs signal hdrs attempt lastError w)))"
proof (induction net u retries backoffMs timeoutMs signal hdrs attempt lastError w
    rule: fetchLoop.induct)
  case (1 net u retries backoffMs timeoutMs signal hdrs attempt lastError w)
  show ?case
  proof (cases "int attempt \<le> retries")
    case False
    then show ?thesis
      by (subst (1 2) fetchLoop.simps) simp
  next
    case True
    obtain out w1 where f: "fetch net \<lparr>reqUrl = u, reqHeaders = hdrs, reqTimeoutMs = timeoutMs\<rparr> signal w = (out, w1)"
      by (cases "fetch net \<lparr>reqUrl = u, reqHeaders = hdrs, reqTimeoutMs = timeoutMs\<rparr> signal w")
    have len: "length (calls w) \<le> length (calls w1)"
      using fetch_world [OF f] by simp
    show ?thesis
    proof (cases "tryBlock out")
      case (Inr res)
      with True f len show ?thesis
        using tryBlock_success_ok [OF Inr] by (simp add: fetchLoop_step)
    next
      case (Inl error)
      show ?thesis
      proof (cases "\<not> (aborted signal (now w1) \<or> errName error = ''AbortError'')
          \<and> \<not> isBusinessError error \<and> int attempt < retries \<and> isNetworkError error")
        case False
        with True f Inl len show ?thesis by (auto simp: fetchLoop_step)
      next
        case r: True
        have step: "fetchLoop net u retries backoffMs timeoutMs signal hdrs attempt lastError w
            = fetchLoop net u retries backoffMs timeoutMs signal hdrs (attempt + 1)
                (Some error) (sleep (backoffMs * 2 ^ attempt) w1)"
          using True f Inl r by (simp add: fetchLoop_step)
        have len': "length (calls w) \<le> length (calls (sleep (backoffMs * 2 ^ attempt) w1))"
          using len by (simp add: sleep_def)
        show ?thesis
          unfolding step
          using "1.IH" [of "(out, w1)" w1 error] True f Inl r len' by auto
      qed
    qed
  qed
qed


lemma transport_failure_not_retried:
  assumes "int attempt \<le> retries"
    and "fetch net \<lparr>reqUrl = u, reqHeaders = hdrs, reqTimeoutMs = timeoutMs\<rparr> signal w
           = (Rejected n m, w1)"
  shows "fetchLoop net u retries backoffMs timeoutMs signal hdrs attempt lastError w =
           (Inl (if aborted signal (now w1) \<or> n = ''AbortError''
                 then NetworkError msg_cancelled None
                 else NetworkError (''Ne udalos vypolnit zapros posle ''
                        @ show_nat (nat (retries + 1)) @ '' popytok: '' @ m) None), w1)"
  using assms by (simp add: fetchLoop_step tryBlock_def afterLoop_def)

text \<open>
  C2. The claim: a connectivity failure or a timeout is retried while attempts remain. In
  the code a connectivity failure is the \<open>TypeError\<close> that \<open>fetch\<close> rejects with, which
  has no \<open>isNetworkError\<close> flag, and a timeout is the \<open>AbortError\<close> of the attempt's own
  timer. With \<open>retries = 2\<close> and no cancellation token, each of the two runs below makes
  one network call, sleeps for no delay and fails.
\<close>

theorem C2_transport_failure_single_attempt:
  "fetchWithRetry netFailedToFetch ''u'' 2 500 5000 None [] world0
     = (Inl (NetworkError ''Ne udalos vypolnit zapros posle 3 popytok: Failed to fetch'' None),
        \<lparr>now = 3, calls = [\<lparr>reqUrl = ''u'', reqHeaders = [], reqTimeoutMs = 5000\<rparr>],
         sleeps = []\<rparr>)
   \<and> fetchWithRetry netTimedOut ''u'' 2 500 5000 None [] world0
     = (Inl (NetworkError msg_cancelled None),
        \<lparr>now = 5000, calls = [\<lparr>reqUrl = ''u'', reqHeaders = [], reqTimeoutMs = 5000\<rparr>],
         sleeps = []\<rparr>)"
  by (simp add: fetchWithRetry_def fetchLoop.simps fetch_def netFailedToFetch_def
      netTimedOut_def world0_def tryBlock_def aborted_def afterLoop_def show_nat.simps digit_def)

text \<open>
  C3. A response whose status is outside 200..299 makes the \<open>try\<close> block of the attempt
  throw at once: \<open>NetworkError\<close> with the status for a status of 500 or more,
  \<open>BusinessError\<close> with code \<open>NOT_FOUND\<close> for 404, with \<open>AUTH_ERROR\<close> for 401 and 403,
  with \<open>RATE_LIMIT\<close> for 429, and \<open>NetworkError\<close> with the status for every other one.
\<close>

theorem C3_status_classification:
  "\<not> ok r \<Longrightarrow>
     (500 \<le> respStatus r \<longrightarrow>
        (\<exists>m. tryBlock (Resolved r) = Inl (NetworkError m (Some (respStatus r)))))
   \<and> (respStatus r = 404 \<longrightarrow>
        (\<exists>m sc. tryBlock (Resolved r) = Inl (BusinessError m (Some ''NOT_FOUND'') sc)))
   \<and> (respStatus r = 401 \<or> respStatus r = 403 \<longrightarrow>
        (\<exists>m sc. tryBlock (Resolved r) = Inl (BusinessError m (Some ''AUTH_ERROR'') sc)))
   \<and> (respStatus r = 429 \<longrightarrow>
        (\<exists>m sc. tryBlock (Resolved r) = Inl (BusinessError m (Some ''RATE_LIMIT'') sc)))
   \<and> (respStatus r < 500 \<and> respStatus r \<noteq> 404 \<and> respStatus r \<noteq> 401
        \<and> respStatus r \<noteq> 403 \<and> respStatus r \<noteq> 429 \<longrightarrow>
        (\<exists>m. tryBlock (Resolved r) = Inl (NetworkError m (Some (respStatus r)))))"
  by (simp add: tryBlock_def classify_def)

theorem C3_witness:
  "\<not> ok notFoundResponse
   \<and> respStatus notFoundResponse = 404
   \<and> tryBlock (Resolved notFoundResponse)
       = Inl (BusinessError ''Resurs ne najden (404)'' (Some ''NOT_FOUND'') None)"
  using C3_status_classification [of notFoundResponse]
  by (simp add: ok_def notFoundResponse_def tryBlock_def classify_def)

text \<open>
  C4. With \<open>retries = 2\<close>, a server that answers 500 to the first two calls and a 2xx
  response with a JSON body to the third, and a cancellation token that is not triggered
  by the time each of the three answers arrives (none is, for the default \<open>signal = null\<close>):
  the call returns the third response's parsed data, it
  makes exactly three network calls, and it sleeps \<open>backoffMs * 2^0\<close> after the first and
  \<open>backoffMs * 2^1\<close> after the second, \<open>backoffMs * (1 + 2)\<close> in all.
\<close>

theorem C4_two_failures_then_success:
  assumes "req = \<lparr>reqUrl = u, reqHeaders = hdrs, reqTimeoutMs = timeoutMs\<rparr>"
    and "net (length (calls w)) req = (Resolved r1, d1)" and "respStatus r1 = 500"
    and "net (length (calls w) + 1) req = (Resolved r2, d2)" and "respStatus r2 = 500"
    and "net (length (calls w) + 2) req = (Resolved r3, d3)" and "ok r3"
    and "respBody r3 = Inr v"
    and "\<not> aborted signal (now w + d1)"
    and "\<not> aborted signal (now w + d1 + backoffMs * 2 ^ 0 + d2)"
    and "\<not> aborted signal (now w + d1 + backoffMs * 2 ^ 0 + d2 + backoffMs * 2 ^ 1 + d3)"
  shows "fetchWithRetry net u 2 backoffMs timeoutMs signal hdrs w
           = (Inr \<lparr>data = v, headers = respHeaders r3, status = respStatus r3\<rparr>,
              \<lparr>now = now w + d1 + backoffMs * 2 ^ 0 + d2 + backoffMs * 2 ^ 1 + d3,
               calls = calls w @ [req, req, req],
               sleeps = sleeps w @ [backoffMs * 2 ^ 0, backoffMs * 2 ^ 1]\<rparr>)
         \<and> sum_list [backoffMs * 2 ^ 0, backoffMs * 2 ^ 1] = backoffMs * (1 + 2)"
proof -
  let ?w1 = "w\<lparr>now := now w + d1, calls := calls w @ [req]\<rparr>"
  let ?w1s = "sleep (backoffMs * 2 ^ 0) ?w1"
  let ?w2 = "?w1s\<lparr>now := now ?w1s + d2, calls := calls ?w1s @ [req]\<rparr>"
  let ?w2s = "sleep (backoffMs * 2 ^ 1) ?w2"
  let ?w3 = "?w2s\<lparr>now := now ?w2s + d3, calls := calls ?w2s @ [req]\<rparr>"
  have e1: "tryBlock (Resolved r1) = Inl (classify r1)" "isNetworkError (classify r1)"
      "\<not> isBusinessError (classify r1)" "errName (classify r1) \<noteq> ''AbortError''"
    using assms(3) by (simp_all add: tryBlock_def ok_def classify_def)
  have e2: "tryBlock (Resolved r2) = Inl (classify r2)" "isNetworkError (classify r2)"
      "\<not> isBusinessError (classify r2)" "errName (classify r2) \<noteq> ''AbortError''"
    using assms(5) by (simp_all add: tryBlock_def ok_def classify_def)
  have e3: "tryBlock (Resolved r3)
      = Inr \<lparr>data = v, headers = respHeaders r3, status = respStatus r3\<rparr>"
    using assms(7,8) by (simp add: tryBlock_def)
  have f1: "fetch net \<lparr>reqUrl = u, reqHeaders = hdrs, reqTimeoutMs = timeoutMs\<rparr> signal w
      = (Resolved r1, ?w1)"
    using fetch_not_aborted [of net w req "Resolved r1" d1 signal] assms(1,2,9) by simp
  have f2: "fetch net \<lparr>reqUrl = u, reqHeaders = hdrs, reqTimeoutMs = timeoutMs\<rparr> signal ?w1s
      = (Resolved r2, ?w2)"
    using fetch_not_aborted [of net ?w1s req "Resolved r2" d2 signal] assms(1,4,10)
    by (simp add: sleep_def)
  have f3: "fetch net \<lparr>reqUrl = u, reqHeaders = hdrs, reqTimeoutMs = timeoutMs\<rparr> signal ?w2s
      = (Resolved r3, ?w3)"
    using fetch_not_aborted [of net ?w2s req "Resolved r3" d3 signal] assms(1,6,11)
    by (simp add: sleep_def)
  have s3: "fetchLoop net u 2 backoffMs timeoutMs signal hdrs (1 + 1) (Some (classify r2)) ?w2s
      = (Inr \<lparr>data = v, headers = respHeaders r3, status = respStatus r3\<rparr>, ?w3)"
    using fetchLoop_step [OF _ f3, of "1 + 1" 2] e3 by simp
  have s2: "fetchLoop net u 2 backoffMs timeoutMs signal hdrs (0 + 1) (Some (classify r1)) ?w1s
      = (Inr \<lparr>data = v, headers = respHeaders r3, status = respStatus r3\<rparr>, ?w3)"
    using fetchLoop_step [OF _ f2, of "0 + 1" 2] e2 assms(10) s3 by (simp add: sleep_def)
  have s1: "fetchLoop net u 2 backoffMs timeoutMs signal hdrs 0 None w
      = (Inr \<lparr>data = v, headers = respHeaders r3, status = respStatus r3\<rparr>, ?w3)"
    using fetchLoop_step [OF _ f1, of 0 2] e1 assms(9) s2 by simp
  show ?thesis
    unfolding fetchWithRetry_def s1 by (simp add: sleep_def)
qed

theorem C4_witness:
  "fetchWithRetry flakyServer ''u'' 2 500 5000 None [] world0
     = (Inr \<lparr>data = JObj [(''name'', JStr ''Moscow'')],
             headers = [(''content-type'', ''application/json'')], status = 200\<rparr>,
        \<lparr>now = 1560,
         calls = [\<lparr>reqUrl = ''u'', reqHeaders = [], reqTimeoutMs = 5000\<rparr>,
                  \<lparr>reqUrl = ''u'', reqHeaders = [], reqTimeoutMs = 5000\<rparr>,
                  \<lparr>reqUrl = ''u'', reqHeaders = [], reqTimeoutMs = 5000\<rparr>],
         sleeps = [500, 1000]\<rparr>)"
  using C4_two_failures_then_success [of "\<lparr>reqUrl = ''u'', reqHeaders = [], reqTimeoutMs = 5000\<rparr>"
      "''u''" "[]" 5000 flakyServer world0
      "\<lparr>respStatus = 500, respStatusText = ''Internal Server Error'',
        respHeaders = [], respBody = Inr (JObj [])\<rparr>" 20
      "\<lparr>respStatus = 500, respStatusText = ''Internal Server Error'',
        respHeaders = [], respBody = Inr (JObj [])\<rparr>" 20
      "\<lparr>respStatus = 200, respStatusText = ''OK'',
        respHeaders = [(''content-type'', ''application/json'')],
        respBody = Inr (JObj [(''name'', JStr ''Moscow'')])\<rparr>" 20
      "JObj [(''name'', JStr ''Moscow'')]" None 500]
  by (simp add: flakyServer_def world0_def ok_def aborted_def)

text \<open>
  C5. When an attempt fails with a Business error (a 404 response, for one), the call
  fails at once with that very error: there is no further call of \<open>fetch\<close> and no delay,
  whatever the attempt number and the retries left. A 404 answer to the first attempt is
  therefore the only network call of the run. (The cancellation check of the \<open>catch\<close>
  clause comes first, but it cannot fire here: \<open>fetch\<close> honours the caller's token, so an
  attempt that ends in a Business error has received its response with the token not
  triggered.)
\<close>

theorem C5_business_error_not_retried:
  assumes "int attempt \<le> retries"
    and "fetch net \<lparr>reqUrl = u, reqHeaders = hdrs, reqTimeoutMs = timeoutMs\<rparr> signal w = (out, w1)"
    and "tryBlock out = Inl error"
    and "isBusinessError error"
  shows "fetchLoop net u retries backoffMs timeoutMs signal hdrs attempt lastError w
           = (Inl error, w1)
         \<and> calls w1 = calls w @ [\<lparr>reqUrl = u, reqHeaders = hdrs, reqTimeoutMs = timeoutMs\<rparr>]
         \<and> sleeps w1 = sleeps w"
proof -
  have n: "errName error \<noteq> ''AbortError''"
    using assms(4) by (cases error) simp_all
  have "\<not> aborted signal (now w1)"
  proof
    assume "aborted signal (now w1)"
    then have "out = Rejected ''AbortError'' ''The operation was aborted''"
      using fetch_aborted [OF assms(2)] by simp
    then show False
      using assms(3,4) by (auto simp: tryBlock_def)
  qed
  then show ?thesis
    using assms n fetch_world [OF assms(2)] by (simp add: fetchLoop_step)
qed

theorem C5_witness:
  "fetchWithRetry always404 ''u'' 2 500 5000 (Some (TriggeredAt 1000)) [] world0
     = (Inl (BusinessError ''Resurs ne najden (404)'' (Some ''NOT_FOUND'') None),
        \<lparr>now = 15, calls = [\<lparr>reqUrl = ''u'', reqHeaders = [], reqTimeoutMs = 5000\<rparr>],
         sleeps = []\<rparr>)"
  using C5_business_error_not_retried [of 0 2 always404 "''u''" "[]" 5000
      "Some (TriggeredAt 1000)" world0 "Resolved notFoundResponse"
      "\<lparr>now = 15, calls = [\<lparr>reqUrl = ''u'', reqHeaders = [], reqTimeoutMs = 5000\<rparr>], sleeps = []\<rparr>"
      "BusinessError ''Resurs ne najden (404)'' (Some ''NOT_FOUND'') None" 500 None]
  by (simp add: fetchWithRetry_def fetch_def always404_def world0_def tryBlock_def ok_def
      notFoundResponse_def classify_def aborted_def)

text \<open>
  C6. When an attempt fails and either the caller's cancellation token is triggered at
  that moment or the failure is an \<open>AbortError\<close>, the call fails at once with the
  \<open>NetworkError\<close> that carries the cancellation message and no status code: there is no
  further network call and no delay, whatever the attempt number and the retries left.
\<close>

theorem C6_cancellation_fails_at_once:
  assumes "int attempt \<le> retries"
    and "fetch net \<lparr>reqUrl = u, reqHeaders = hdrs, reqTimeoutMs = timeoutMs\<rparr> signal w = (out, w1)"
    and "tryBlock out = Inl error"
    and "aborted signal (now w1) \<or> errName error = ''AbortError''"
  shows "fetchLoop net u retries backoffMs timeoutMs signal hdrs attempt lastError w
           = (Inl (NetworkError msg_cancelled None), w1)
         \<and> msg_cancelled = ''Zapros byl otmenen''
         \<and> calls w1 = calls w @ [\<lparr>reqUrl = u, reqHeaders = hdrs, reqTimeoutMs = timeoutMs\<rparr>]
         \<and> sleeps w1 = sleeps w"
  using assms fetch_world [OF assms(2)] by (simp add: fetchLoop_step msg_cancelled_def)

theorem C6_witness:
  "fetchWithRetry flakyServer ''u'' 7 500 5000 (Some (TriggeredAt 5)) [] world0
     = (Inl (NetworkError ''Zapros byl otmenen'' None),
        \<lparr>now = 5, calls = [\<lparr>reqUrl = ''u'', reqHeaders = [], reqTimeoutMs = 5000\<rparr>],
         sleeps = []\<rparr>)"
  using C6_cancellation_fails_at_once [of 0 7 flakyServer "''u''" "[]" 5000
      "Some (TriggeredAt 5)" world0
      "Rejected ''AbortError'' ''The operation was aborted''"
      "\<lparr>now = 5, calls = [\<lparr>reqUrl = ''u'', reqHeaders = [], reqTimeoutMs = 5000\<rparr>], sleeps = []\<rparr>"
      "PlatformError ''AbortError'' ''The operation was aborted''" 500 None]
  by (simp add: fetchWithRetry_def fetch_def flakyServer_def world0_def tryBlock_def
      aborted_def abortMoment_def)

text \<open>
  C10. The \<open>BusinessError\<close> thrown for a 404, 401 or 403 response has \<open>statusCode = null\<close>;
  the one thrown for a 429 response has \<open>statusCode = 429\<close>. So every \<open>BusinessError\<close>
  that a call of \<open>fetchWithRetry\<close> fails with either has the code \<open>RATE_LIMIT\<close> and the
  status code 429, or has the code \<open>NOT_FOUND\<close> or \<open>AUTH_ERROR\<close> and no status code.
\<close>

theorem C10_business_error_status_code:
  "(respStatus r = 404 \<or> respStatus r = 401 \<or> respStatus r = 403 \<longrightarrow>
      (\<exists>m c. tryBlock (Resolved r) = Inl (BusinessError m c None)))
   \<and> (respStatus r = 429 \<longrightarrow>
      (\<exists>m c. tryBlock (Resolved r) = Inl (BusinessError m c (Some 429))))
   \<and> (fst (fetchWithRetry net u retries backoffMs timeoutMs signal hdrs w) = Inl e
        \<and> isBusinessError e \<longrightarrow>
      (errStatusCode e = Some 429 \<and> errCode e = Some ''RATE_LIMIT'')
      \<or> (errStatusCode e = None
          \<and> (errCode e = Some ''NOT_FOUND'' \<or> errCode e = Some ''AUTH_ERROR'')))"
proof -
  have a: "respStatus r = 404 \<or> respStatus r = 401 \<or> respStatus r = 403 \<longrightarrow>
      (\<exists>m c. tryBlock (Resolved r) = Inl (BusinessError m c None))"
    by (auto simp: tryBlock_def ok_def classify_def)
  have b: "respStatus r = 429 \<longrightarrow>
      (\<exists>m c. tryBlock (Resolved r) = Inl (BusinessError m c (Some 429)))"
    by (auto simp: tryBlock_def ok_def classify_def)
  have c: "fst (fetchWithRetry net u retries backoffMs timeoutMs signal hdrs w) = Inl e
        \<and> isBusinessError e \<longrightarrow>
      (errStatusCode e = Some 429 \<and> errCode e = Some ''RATE_LIMIT'')
      \<or> (errStatusCode e = None
          \<and> (errCode e = Some ''NOT_FOUND'' \<or> errCode e = Some ''AUTH_ERROR''))"
    unfolding fetchWithRetry_def using fetchLoop_business [of _ _ _ _ _ _ _ 0 None] by blast
  from a b c show ?thesis by blast
qed

theorem C10_witness:
  "respStatus notFoundResponse = 404
   \<and> tryBlock (Resolved notFoundResponse)
       = Inl (BusinessError ''Resurs ne najden (404)'' (Some ''NOT_FOUND'') None)
   \<and> fst (fetchWithRetry always404 ''u'' 2 500 5000 None [] world0)
       = Inl (BusinessError ''Resurs ne najden (404)'' (Some ''NOT_FOUND'') None)
   \<and> errStatusCode (BusinessError ''Resurs ne najden (404)'' (Some ''NOT_FOUND'') None) = None"
  using C10_business_error_status_code [of notFoundResponse always404 "''u''" 2 500 5000 None
      "[]" world0 "BusinessError ''Resurs ne najden (404)'' (Some ''NOT_FOUND'') None"]
  by (simp add: fetchWithRetry_def fetchLoop.simps fetch_def always404_def world0_def
      tryBlock_def ok_def notFoundResponse_def classify_def aborted_def)

section \<open>Properties of the clients\<close>

lemma getCitiesPaginated_result_shape:
  assumes "fst (getCitiesPaginated net page limit signal useETag st) = Inr v"
  shows "\<exists>d t h. v = JObj [(''data'', d), (''page'', JNum (int page)), (''limit'', JNum (int limit)),
           (''total'', t), (''hasMore'', JBool h), (''fromCache'', JBool False),
           (''cacheHit'', JBool False)]"
proof -
  have ok: "fst (fetchWithRetry net u 2 500 5000 signal hs w) = Inr res \<Longrightarrow> status res \<noteq> 304"
    for u hs w res
    unfolding fetchWithRetry_def using fetchLoop_success_calls [of net u 2 500 5000 signal hs 0 None w]
    by auto
  show ?thesis
    using assms
    by (auto simp: getCitiesPaginated_def Let_def split: sum.splits if_splits option.splits
        dest: ok)
qed

text \<open>
  C1. The claim: when the server answers 304 to a request that carries the cached
  validator, \<open>getCitiesPaginated\<close> returns the cached page tagged \<open>fromCache = true\<close>,
  \<open>cacheHit = true\<close>. In the run below the first request of page 1 returns the page and
  stores it with the validator \<open>v1\<close>; the repeat request sends \<open>If-None-Match: v1\<close>, the
  server answers 304, and \<open>fetchWithRetry\<close> treats the 304 as a failed response: it is
  retried twice, after 500 ms and 1000 ms, and the call fails with a \<open>NetworkError\<close> that
  carries the status 304. The branch of \<open>getCitiesPaginated\<close> for status 304 is not reached.
\<close>

theorem C1_not_modified_fails:
  "getCitiesPaginated etagServer 1 10 None True ([], world0)
     = (Inr firstPageResult, cacheAfterFirstPage, worldAfterFirstPage)
   \<and> etag_getETag (citiesUrl 1 10) cacheAfterFirstPage = Some ''v1''
   \<and> etag_getData (citiesUrl 1 10) cacheAfterFirstPage = firstPageResult
   \<and> getCitiesPaginated etagServer 1 10 None True (cacheAfterFirstPage, worldAfterFirstPage)
     = (Inl (NetworkError ''HTTP 304: Not Modified'' (Some 304)), cacheAfterFirstPage,
        \<lparr>now = 1540,
         calls = [unconditionalRequest, conditionalRequest, conditionalRequest,
                  conditionalRequest],
         sleeps = [500, 1000]\<rparr>)"
  by (simp add: getCitiesPaginated_def citiesUrl_def MOCK_API_URL_def show_nat.simps digit_def
      etag_has_def etag_getETag_def etag_getData_def etag_set_def world0_def
      fetchWithRetry_def fetchLoop.simps fetch_def sleep_def etagServer_def tryBlock_def ok_def
      classify_def aborted_def afterLoop_def headers_get_def asciiLowerCase_def
      asciiLowerChar_def
      truthyStr_def parseInt_def isSpace_def digitVal_def citiesCatch_def
      firstPageResult_def cacheAfterFirstPage_def worldAfterFirstPage_def
      unconditionalRequest_def conditionalRequest_def cityPage_def Let_def)




end
